theory Spec2Isabelle
  imports Main "HOL-Library.AList" "HOL-Library.Sublist"
begin

section \<open>Values of the language\<close>

text \<open>
  The result of \<^verbatim>\<open>JSON.parse\<close> and the values read from it are untyped in the source
  (\<^verbatim>\<open>any\<close>). They are modelled as a datatype of JavaScript values; \<open>JUndefined\<close> is what
  reading an absent property gives. Only whether a number is zero is ever inspected, so
  numbers are carried as integers. \<open>JObj\<close> lists the own properties of an object.
\<close>

datatype js =
    JUndefined
  | JNull
  | JBool bool
  | JNum int
  | JStr string
  | JArr "js list"
  | JObj "(string \<times> js) list"

text \<open>Truthiness, as \<^verbatim>\<open>if (v)\<close> and \<^verbatim>\<open>v || d\<close> test it.\<close>

fun truthy :: "js \<Rightarrow> bool" where
  "truthy JUndefined = False"
| "truthy JNull = False"
| "truthy (JBool b) = b"
| "truthy (JNum n) = (n \<noteq> 0)"
| "truthy (JStr s) = (s \<noteq> [])"
| "truthy (JArr xs) = True"
| "truthy (JObj kvs) = True"

text \<open>\<^verbatim>\<open>a || b\<close> on values.\<close>

definition js_or :: "js \<Rightarrow> js \<Rightarrow> js" where
  "js_or a b = (if truthy a then a else b)"

datatype error = Error string | NonError

text \<open>
  Property access \<^verbatim>\<open>v.name\<close> for the five names the extractor reads. On \<^verbatim>\<open>null\<close> and
  \<^verbatim>\<open>undefined\<close> it throws a TypeError; on an object it is the own property or
  \<^verbatim>\<open>undefined\<close>; numbers, strings, booleans and arrays have no property of these names.
\<close>

fun get_prop :: "js \<Rightarrow> string \<Rightarrow> error + js" where
  "get_prop JUndefined k = Inl (Error ''TypeError: cannot read properties of undefined'')"
| "get_prop JNull k = Inl (Error ''TypeError: cannot read properties of null'')"
| "get_prop (JObj kvs) k = (case map_of kvs k of None \<Rightarrow> Inr JUndefined | Some v \<Rightarrow> Inr v)"
| "get_prop v k = Inr JUndefined"

section \<open>The task store\<close>

datatype task_status = pending | completed

text \<open>
  \<^verbatim>\<open>interface Task\<close>. The fields filled from the parsed model response keep the value
  they were given, whatever its JavaScript type: nothing checks them at run time.
\<close>

record Task =
  t_id :: string
  t_emailId :: string
  t_subject :: string
  t_description :: js
  t_sender :: string
  t_priority :: js
  t_dueDate :: js
  t_status :: task_status
  t_notes :: "js list"
  t_createdAt :: nat

text \<open>
  \<^verbatim>\<open>const taskStore: Map<string, Task>\<close>. A JavaScript \<^verbatim>\<open>Map\<close> iterates in insertion
  order and \<^verbatim>\<open>set\<close> on a key already present replaces the value where it stands: an
  association list with \<open>AList.update\<close> for \<^verbatim>\<open>set\<close> and \<open>map_of\<close> for \<^verbatim>\<open>get\<close>.
\<close>

type_synonym task_store = "(string \<times> Task) list"

definition markTaskComplete :: "string \<Rightarrow> task_store \<Rightarrow> bool \<times> task_store" where
  "markTaskComplete taskId store =
     (case map_of store taskId of
        Some task \<Rightarrow> (True, AList.update taskId (task\<lparr>t_status := completed\<rparr>) store)
      | None \<Rightarrow> (False, store))"

definition addTaskNote :: "string \<Rightarrow> string \<Rightarrow> task_store \<Rightarrow> bool \<times> task_store" where
  "addTaskNote taskId note store =
     (case map_of store taskId of
        Some task \<Rightarrow> (True, AList.update taskId (task\<lparr>t_notes := t_notes task @ [JStr note]\<rparr>) store)
      | None \<Rightarrow> (False, store))"

definition getAllTasks :: "task_store \<Rightarrow> Task list" where
  "getAllTasks store = map snd store"

section \<open>Content Decoder\<close>

record header =
  h_name :: string
  h_value :: string

text \<open>
  The objects \<^verbatim>\<open>decodeEmailBody\<close> walks are untyped in the source. A \<open>part\<close> is an object
  with the optional fields the code reads: \<^verbatim>\<open>mimeType\<close>, \<^verbatim>\<open>headers\<close> (absent is the
  empty list), \<^verbatim>\<open>data\<close>, \<^verbatim>\<open>body\<close> and \<^verbatim>\<open>parts\<close>. It stands for a message payload, a
  message part, a part body and the literal \<^verbatim>\<open>{ parts: part.parts }\<close> alike.
\<close>

datatype part =
  Part (mimeType: "string option") (headers: "header list") (data: "string option")
       (body: "part option") (parts: "part list option")

text \<open>A string that may be absent, read where absent and empty are both falsy.\<close>

fun or_empty :: "string option \<Rightarrow> string" where
  "or_empty None = []"
| "or_empty (Some s) = s"

text \<open>
  \<^verbatim>\<open>decodeEmailBody\<close>. \<open>b64\<close> is \<^verbatim>\<open>Buffer.from(_, 'base64').toString('utf-8')\<close>, a function of
  the platform. \<open>decodeEmailBody_parts\<close> is the \<^verbatim>\<open>for (const part of body.parts)\<close> loop; the
  call \<^verbatim>\<open>decodeEmailBody({ parts: part.parts })\<close> enters that loop directly, since the fresh
  object is truthy and has no \<^verbatim>\<open>data\<close>.
\<close>

function (sequential) decodeEmailBody :: "(string \<Rightarrow> string) \<Rightarrow> part option \<Rightarrow> string"
  and decodeEmailBody_parts :: "(string \<Rightarrow> string) \<Rightarrow> part list \<Rightarrow> string" where
  "decodeEmailBody b64 None = []"
| "decodeEmailBody b64 (Some b) =
     (if or_empty (data b) \<noteq> [] then b64 (or_empty (data b))
      else (case parts b of
              Some ps \<Rightarrow> decodeEmailBody_parts b64 ps
            | None \<Rightarrow> []))"
| "decodeEmailBody_parts b64 [] = []"
| "decodeEmailBody_parts b64 (p # ps) =
     (if mimeType p = Some ''text/plain'' \<or> mimeType p = Some ''text/html''
      then decodeEmailBody b64 (body p)
      else (case parts p of
              Some qs \<Rightarrow>
                (let decoded = decodeEmailBody_parts b64 qs
                 in if decoded \<noteq> [] then decoded else decodeEmailBody_parts b64 ps)
            | None \<Rightarrow> decodeEmailBody_parts b64 ps))"
  by pat_completeness auto

termination
proof (relation "measure (\<lambda>x. case x of Inl (f, b) \<Rightarrow> size_option size b
                                      | Inr (f, ps) \<Rightarrow> size_list size ps)")
  fix b64 :: "string \<Rightarrow> string" and b :: part and ps :: "part list"
  assume "parts b = Some ps"
  then have "size_list size ps < Suc (size b)" by (cases b) simp
  then show "(Inr (b64, ps), Inl (b64, Some b))
      \<in> measure (\<lambda>x. case x of Inl (f, b) \<Rightarrow> size_option size b
                              | Inr (f, ps) \<Rightarrow> size_list size ps)"
    by simp
next
  fix b64 :: "string \<Rightarrow> string" and p :: part and ps :: "part list"
  have "size_option size (body p) \<le> size p" by (cases p) simp
  then show "(Inl (b64, body p), Inr (b64, p # ps))
      \<in> measure (\<lambda>x. case x of Inl (f, b) \<Rightarrow> size_option size b
                              | Inr (f, ps) \<Rightarrow> size_list size ps)"
    by simp
next
  fix b64 :: "string \<Rightarrow> string" and p :: part and ps qs :: "part list"
  assume "parts p = Some qs"
  then have "size_list size qs < size p" by (cases p) simp
  then show "(Inr (b64, qs), Inr (b64, p # ps))
      \<in> measure (\<lambda>x. case x of Inl (f, b) \<Rightarrow> size_option size b
                              | Inr (f, ps) \<Rightarrow> size_list size ps)"
    by simp
qed simp_all

section \<open>Eligibility Filter\<close>

text \<open>
  \<^verbatim>\<open>toLowerCase\<close> on the ASCII letters. The keywords are ASCII and hold neither \<^verbatim>\<open>k\<close> nor an
  \<^verbatim>\<open>i\<close> at their end, so the two code points outside ASCII whose lower case holds an
  ASCII letter (U+212A, U+0130) cannot complete a keyword.
\<close>

definition lower_char :: "char \<Rightarrow> char" where
  "lower_char c =
     (case map_of (zip ''ABCDEFGHIJKLMNOPQRSTUVWXYZ'' ''abcdefghijklmnopqrstuvwxyz'') c of
        Some l \<Rightarrow> l
      | None \<Rightarrow> c)"

definition toLowerCase :: "string \<Rightarrow> string" where
  "toLowerCase s = map lower_char s"

text \<open>\<^verbatim>\<open>s.includes(k)\<close>: \<open>k\<close> starts at some position of \<open>s\<close>.\<close>

fun str_includes :: "string \<Rightarrow> string \<Rightarrow> bool" where
  "str_includes [] k = (k = [])"
| "str_includes (c # s) k = (prefix k (c # s) \<or> str_includes s k)"

text \<open>
  \<^verbatim>\<open>headers.find(p)?.value || dflt\<close>: the value of the first header that satisfies \<open>p\<close>,
  or \<open>dflt\<close> when there is none or its value is empty (or absent).
\<close>

definition find_value :: "(header \<Rightarrow> bool) \<Rightarrow> header list \<Rightarrow> string \<Rightarrow> string" where
  "find_value p hs dflt =
     (case find p hs of
        None \<Rightarrow> dflt
      | Some h \<Rightarrow> (if h_value h \<noteq> [] then h_value h else dflt))"

definition promotionalKeywords :: "string list" where
  "promotionalKeywords =
     [''unsubscribe'', ''newsletter'', ''promotion'', ''sale'', ''discount'',
      ''offer'', ''deal'', ''no-reply'', ''noreply'', ''automated'']"

definition fromHeader :: "header list \<Rightarrow> string" where
  "fromHeader hs = find_value (\<lambda>h. toLowerCase (h_name h) = ''from'') hs []"

definition subjectHeader :: "header list \<Rightarrow> string" where
  "subjectHeader hs = find_value (\<lambda>h. toLowerCase (h_name h) = ''subject'') hs []"

definition isPromotionalEmail :: "header list \<Rightarrow> string \<Rightarrow> bool" where
  "isPromotionalEmail hs bodyText =
     (let contentToCheck = toLowerCase (fromHeader hs @ subjectHeader hs @ bodyText)
      in list_ex (\<lambda>keyword. str_includes contentToCheck keyword) promotionalKeywords)"

subsection \<open>The contract of the filter\<close>






section \<open>The outside world\<close>

text \<open>
  The program talks to three collaborators that are not part of it: the Gmail API, the
  language model and the clock. Their answers are inputs, and they may differ from one
  call to the next, so each is a function of the number of external calls completed so far
  (\<open>tick\<close>). \<open>None\<close> is a call that throws. \<open>messages_list k n\<close> is the identifiers in
  \<^verbatim>\<open>response.data.messages || []\<close> of the list call with \<^verbatim>\<open>maxResults\<close> \<open>n\<close>; \<open>messages_get k i\<close>
  is \<^verbatim>\<open>detail.data.payload\<close> of message \<open>i\<close> (\<open>Some None\<close> when the payload is absent).
  \<^verbatim>\<open>JSON.parse\<close> and the base64 decoding belong to the platform and do not change.
\<close>

record env =
  messages_list :: "nat \<Rightarrow> nat \<Rightarrow> string list option"
  messages_get :: "nat \<Rightarrow> string \<Rightarrow> part option option"
  generateText :: "nat \<Rightarrow> string \<Rightarrow> string option"
  JSON_parse :: "string \<Rightarrow> js option"
  base64_utf8 :: "string \<Rightarrow> string"
  Date_now :: "nat \<Rightarrow> nat"

record email =
  e_id :: string
  e_subject :: string
  e_from :: string
  e_date :: string
  e_body :: string

datatype log_status = LogSuccess | LogError

record WorkflowExecutionLog =
  timestamp :: nat
  emailsChecked :: nat
  tasksExtracted :: nat
  l_status :: log_status
  l_error :: "string option"

text \<open>
  The two module-level variables, the count of external calls, and \<open>submitted\<close>: the
  messages handed to \<^verbatim>\<open>extractTasksFromEmail\<close> so far, in order. The code keeps no such
  list; it records the calls so that theorems can speak about them.
\<close>

record world =
  taskStore :: task_store
  executionLogs :: "WorkflowExecutionLog list"
  tick :: nat
  submitted :: "email list"

definition await :: "world \<Rightarrow> world" where
  "await w = w\<lparr>tick := Suc (tick w)\<rparr>"

definition logExecution :: "WorkflowExecutionLog \<Rightarrow> world \<Rightarrow> world" where
  "logExecution entry w = w\<lparr>executionLogs := executionLogs w @ [entry]\<rparr>"

section \<open>Fetching messages\<close>

text \<open>\<^verbatim>\<open>detail.data.payload?.headers || []\<close>\<close>

fun payload_headers :: "part option \<Rightarrow> header list" where
  "payload_headers None = []"
| "payload_headers (Some p) = headers p"

text \<open>\<^verbatim>\<open>decodeEmailBody(detail.data.payload?.body || detail.data.payload)\<close>\<close>

fun payload_body :: "(string \<Rightarrow> string) \<Rightarrow> part option \<Rightarrow> string" where
  "payload_body b64 None = decodeEmailBody b64 None"
| "payload_body b64 (Some p) =
     (case body p of
        Some b \<Rightarrow> decodeEmailBody b64 (Some b)
      | None \<Rightarrow> decodeEmailBody b64 (Some p))"

text \<open>The record pushed to \<^verbatim>\<open>emailDetails\<close>.\<close>

definition email_of :: "(string \<Rightarrow> string) \<Rightarrow> string \<Rightarrow> part option \<Rightarrow> email" where
  "email_of b64 mid payload =
     \<lparr>e_id = mid,
      e_subject = find_value (\<lambda>h. h_name h = ''Subject'') (payload_headers payload) ''No Subject'',
      e_from = find_value (\<lambda>h. h_name h = ''From'') (payload_headers payload) ''Unknown'',
      e_date = find_value (\<lambda>h. h_name h = ''Date'') (payload_headers payload) [],
      e_body = take 2000 (payload_body b64 payload)\<rparr>"

definition fetch_failed :: error where
  "fetch_failed = Error ''Failed to fetch emails from Gmail''"

fun getEmails_loop :: "env \<Rightarrow> string list \<Rightarrow> email list \<Rightarrow> world \<Rightarrow> (error + email list) \<times> world" where
  "getEmails_loop env [] emailDetails w = (Inr emailDetails, w)"
| "getEmails_loop env (mid # rest) emailDetails w =
     (case messages_get env (tick w) mid of
        None \<Rightarrow> (Inl fetch_failed, await w)
      | Some payload \<Rightarrow>
          (if isPromotionalEmail (payload_headers payload) (payload_body (base64_utf8 env) payload)
           then getEmails_loop env rest emailDetails (await w)
           else getEmails_loop env rest
                  (emailDetails @ [email_of (base64_utf8 env) mid payload]) (await w)))"

text \<open>\<^verbatim>\<open>async function getEmails(maxResults: number = 10)\<close>\<close>

definition getEmails :: "env \<Rightarrow> nat option \<Rightarrow> world \<Rightarrow> (error + email list) \<times> world" where
  "getEmails env maxResults w =
     (case messages_list env (tick w) (case maxResults of None \<Rightarrow> 10 | Some n \<Rightarrow> n) of
        None \<Rightarrow> (Inl fetch_failed, await w)
      | Some messages \<Rightarrow> getEmails_loop env messages [] (await w))"

section \<open>Task Extractor\<close>

text \<open>Decimal digits of a number, as a template literal prints it.\<close>

fun show_nat :: "nat \<Rightarrow> string" where
  "show_nat n =
     (if n < 10 then [''0123456789'' ! n]
      else show_nat (n div 10) @ [''0123456789'' ! (n mod 10)])"

declare show_nat.simps [simp del]

definition prompt_of :: "email \<Rightarrow> string" where
  "prompt_of email =
     ''\<newline>Analyze the following email and extract any actionable tasks.\<newline>'' @
     ''If there are no clear action items, return null.\<newline>\<newline>'' @
     ''Email Subject: '' @ e_subject email @ ''\<newline>'' @
     ''From: '' @ e_from email @ ''\<newline>'' @
     ''Date: '' @ e_date email @ ''\<newline>'' @
     ''Body:\<newline>'' @ e_body email @ ''\<newline>\<newline>'' @
     ''Extract:\<newline>'' @
     ''1. Task description (clear, concise action item)\<newline>'' @
     ''2. Priority (high/medium/low based on urgency indicators)\<newline>'' @
     ''3. Due date (if mentioned, in ISO format)\<newline>'' @
     ''4. Any relevant context\<newline>\<newline>'' @
     ''Return as JSON with fields: description, priority, dueDate (optional), context.\<newline>'' @
     ''If no actionable task exists, return {'' @ [CHR 0x22] @ ''noTask'' @ [CHR 0x22] @
     '': true}.\<newline>''"

text \<open>\<^verbatim>\<open>`task-${email.id}-${Date.now()}`\<close>\<close>

definition task_id :: "string \<Rightarrow> nat \<Rightarrow> string" where
  "task_id mid now = ''task-'' @ mid @ ''-'' @ show_nat now"

text \<open>
  The object literal of \<^verbatim>\<open>extractTasksFromEmail\<close>, from the property values read. The
  code reads the clock once for the identifier (\<^verbatim>\<open>Date.now()\<close>) and once more for
  \<^verbatim>\<open>createdAt\<close> (\<^verbatim>\<open>new Date()\<close>); here \<open>t_createdAt\<close> carries the first reading, and
  nothing below depends on it.
\<close>

definition make_task :: "email \<Rightarrow> nat \<Rightarrow> js \<Rightarrow> js \<Rightarrow> js \<Rightarrow> js \<Rightarrow> Task" where
  "make_task email now description priority dueDate ctx =
     \<lparr>t_id = task_id (e_id email) now,
      t_emailId = e_id email,
      t_subject = e_subject email,
      t_description = description,
      t_sender = e_from email,
      t_priority = js_or priority (JStr ''medium''),
      t_dueDate = dueDate,
      t_status = pending,
      t_notes = [js_or ctx (JStr [])],
      t_createdAt = now\<rparr>"

text \<open>
  The body of the \<^verbatim>\<open>try\<close> block: \<open>Inl\<close> is an exception raised in it. The model call is
  the one external call; the clock is read after it.
\<close>

definition extractTasksFromEmail_try :: "env \<Rightarrow> email \<Rightarrow> world \<Rightarrow> (error + Task option) \<times> world" where
  "extractTasksFromEmail_try env email w =
     (let w1 = await (w\<lparr>submitted := submitted w @ [email]\<rparr>)
      in case generateText env (tick w) (prompt_of email) of
           None \<Rightarrow> (Inl NonError, w1)
         | Some text \<Rightarrow>
             (case JSON_parse env text of
                None \<Rightarrow> (Inl (Error ''SyntaxError''), w1)
              | Some result \<Rightarrow>
                  (case get_prop result ''noTask'' of
                     Inl e \<Rightarrow> (Inl e, w1)
                   | Inr noTask \<Rightarrow>
                       (if truthy noTask then (Inr None, w1)
                        else (case (get_prop result ''description'', get_prop result ''priority'',
                                    get_prop result ''dueDate'', get_prop result ''context'') of
                                (Inr description, Inr priority, Inr dueDate, Inr ctx) \<Rightarrow>
                                  (let task = make_task email (Date_now env (tick w1))
                                                description priority dueDate ctx
                                   in (Inr (Some task),
                                       w1\<lparr>taskStore := AList.update (t_id task) task (taskStore w1)\<rparr>))
                              | _ \<Rightarrow> (Inl (Error ''TypeError''), w1))))))"

text \<open>The \<^verbatim>\<open>catch\<close> block: every exception becomes \<^verbatim>\<open>null\<close>.\<close>

definition extractTasksFromEmail :: "env \<Rightarrow> email \<Rightarrow> world \<Rightarrow> Task option \<times> world" where
  "extractTasksFromEmail env email w =
     (case extractTasksFromEmail_try env email w of
        (Inl e, w') \<Rightarrow> (None, w')
      | (Inr r, w') \<Rightarrow> (r, w'))"

section \<open>The email tool\<close>

datatype action = GetEmails | ExtractTasks | MarkComplete | AddNote | ListTasks

record tool_input =
  action :: action
  maxResults :: "nat option"
  taskId :: "string option"
  i_note :: "string option"

text \<open>
  The object \<^verbatim>\<open>emailTool.execute\<close> returns: \<^verbatim>\<open>success\<close> and \<^verbatim>\<open>message\<close> always, \<^verbatim>\<open>emails\<close> or
  \<^verbatim>\<open>tasks\<close> in the actions that produce them.
\<close>

record tool_result =
  success :: bool
  r_emails :: "email list option"
  r_tasks :: "Task list option"
  r_message :: string

definition plain_result :: "bool \<Rightarrow> string \<Rightarrow> tool_result" where
  "plain_result ok msg = \<lparr>success = ok, r_emails = None, r_tasks = None, r_message = msg\<rparr>"

text \<open>The \<^verbatim>\<open>for (const email of emails)\<close> loop of the \<^verbatim>\<open>extractTasks\<close> case.\<close>

fun extractTasks_loop :: "env \<Rightarrow> email list \<Rightarrow> Task list \<Rightarrow> world \<Rightarrow> Task list \<times> world" where
  "extractTasks_loop env [] tasks w = (tasks, w)"
| "extractTasks_loop env (email # rest) tasks w =
     (case extractTasksFromEmail env email w of
        (Some task, w') \<Rightarrow> extractTasks_loop env rest (tasks @ [task]) w'
      | (None, w') \<Rightarrow> extractTasks_loop env rest tasks w')"

definition emailTool_execute :: "env \<Rightarrow> tool_input \<Rightarrow> world \<Rightarrow> (error + tool_result) \<times> world" where
  "emailTool_execute env input w =
     (case action input of
        GetEmails \<Rightarrow>
          (case getEmails env (maxResults input) w of
             (Inl e, w') \<Rightarrow> (Inl e, w')
           | (Inr emails, w') \<Rightarrow>
               (Inr \<lparr>success = True, r_emails = Some emails, r_tasks = None,
                     r_message = ''Retrieved '' @ show_nat (length emails) @ '' emails from inbox''\<rparr>,
                w'))
      | ExtractTasks \<Rightarrow>
          (case getEmails env (maxResults input) w of
             (Inl e, w') \<Rightarrow> (Inl e, w')
           | (Inr emails, w') \<Rightarrow>
               (case extractTasks_loop env emails [] w' of
                  (tasks, w'') \<Rightarrow>
                    (Inr \<lparr>success = True, r_emails = None, r_tasks = Some tasks,
                          r_message = ''Extracted '' @ show_nat (length tasks) @ '' tasks from '' @
                                      show_nat (length emails) @ '' emails''\<rparr>,
                     w'')))
      | MarkComplete \<Rightarrow>
          (if or_empty (taskId input) = [] then (Inr (plain_result False ''Task ID is required''), w)
           else (case markTaskComplete (or_empty (taskId input)) (taskStore w) of
                   (ok, store) \<Rightarrow>
                     (Inr (plain_result ok (if ok then ''Task marked as complete'' else ''Task not found'')),
                      w\<lparr>taskStore := store\<rparr>)))
      | AddNote \<Rightarrow>
          (if or_empty (taskId input) = [] \<or> or_empty (i_note input) = []
           then (Inr (plain_result False ''Task ID and note are required''), w)
           else (case addTaskNote (or_empty (taskId input)) (or_empty (i_note input)) (taskStore w) of
                   (ok, store) \<Rightarrow>
                     (Inr (plain_result ok (if ok then ''Note added to task'' else ''Task not found'')),
                      w\<lparr>taskStore := store\<rparr>)))
      | ListTasks \<Rightarrow>
          (let tasks = getAllTasks (taskStore w)
           in (Inr \<lparr>success = True, r_emails = None, r_tasks = Some tasks,
                    r_message = ''Found '' @ show_nat (length tasks) @ '' tasks''\<rparr>,
               w)))"

section \<open>The refresh workflow\<close>

text \<open>
  The workflow engine (\<^verbatim>\<open>createWorkflow\<close>, \<^verbatim>\<open>.step\<close>, \<^verbatim>\<open>.commit\<close>) is a library. The steps
  are written for an engine that runs them in the order given, hands each step the fields
  returned by the steps before it as \<^verbatim>\<open>context\<close>, and stops at the first step that throws:
  so it is modelled. A field no step has returned yet is \<open>None\<close> (\<^verbatim>\<open>undefined\<close>).
  The steps reach the tool through the imported \<^verbatim>\<open>emailTool\<close>; here it is the argument
  \<open>tool\<close>, whose outcome may be a result or an exception.
\<close>

record step_context =
  c_emails :: "email list option"
  c_emailCount :: "nat option"
  c_tasks :: "Task list option"
  c_taskCount :: "nat option"

type_synonym tool = "tool_input \<Rightarrow> world \<Rightarrow> (error + tool_result) \<times> world"

text \<open>
  The TypeError of \<^verbatim>\<open>result.emails.length\<close> or \<^verbatim>\<open>result.tasks.length\<close> when the result holds
  no such field.
\<close>

definition length_of_undefined :: error where
  "length_of_undefined =
     Error (''Cannot read properties of undefined (reading '' @ [CHR 0x27] @ ''length'' @
            [CHR 0x27] @ '')'')"

definition fetchEmailsStep :: "tool \<Rightarrow> world \<Rightarrow> (error + step_context) \<times> world" where
  "fetchEmailsStep tool w =
     (case tool \<lparr>action = GetEmails, maxResults = Some 20, taskId = None, i_note = None\<rparr> w of
        (Inl e, w') \<Rightarrow> (Inl e, w')
      | (Inr result, w') \<Rightarrow>
          (if success result
           then (case r_emails result of
                   None \<Rightarrow> (Inl length_of_undefined, w')
                 | Some emails \<Rightarrow>
                     (Inr \<lparr>c_emails = Some emails, c_emailCount = Some (length emails),
                           c_tasks = None, c_taskCount = None\<rparr>, w'))
           else (Inl (Error ''Failed to fetch emails''), w')))"

definition extractTasksStep :: "tool \<Rightarrow> step_context \<Rightarrow> world \<Rightarrow> (error + step_context) \<times> world" where
  "extractTasksStep tool ctx w =
     (case tool \<lparr>action = ExtractTasks, maxResults = Some 20, taskId = None, i_note = None\<rparr> w of
        (Inl e, w') \<Rightarrow> (Inl e, w')
      | (Inr result, w') \<Rightarrow>
          (if success result
           then (case r_tasks result of
                   None \<Rightarrow> (Inl length_of_undefined, w')
                 | Some tasks \<Rightarrow>
                     (Inr (ctx\<lparr>c_tasks := Some tasks, c_taskCount := Some (length tasks)\<rparr>), w'))
           else (Inl (Error ''Failed to extract tasks''), w')))"

text \<open>\<^verbatim>\<open>n || 0\<close> and \<^verbatim>\<open>${n}\<close> on a count that may be \<^verbatim>\<open>undefined\<close>.\<close>

fun or_zero :: "nat option \<Rightarrow> nat" where
  "or_zero None = 0"
| "or_zero (Some n) = n"

fun show_count :: "nat option \<Rightarrow> string" where
  "show_count None = ''undefined''"
| "show_count (Some n) = show_nat n"

record summary =
  s_success :: bool
  totalTasks :: nat
  newTasks :: "nat option"
  s_message :: string

text \<open>\<^verbatim>\<open>error instanceof Error ? error.message : 'Unknown error'\<close>\<close>

fun error_message :: "error \<Rightarrow> string" where
  "error_message (Error m) = m"
| "error_message NonError = ''Unknown error''"

text \<open>The \<^verbatim>\<open>catch\<close> block of the third step: log the failed execution, throw again.\<close>

definition updateTaskListStep_catch :: "env \<Rightarrow> step_context \<Rightarrow> error \<Rightarrow> world \<Rightarrow> (error + summary) \<times> world" where
  "updateTaskListStep_catch env ctx e w =
     (Inl e,
      logExecution \<lparr>timestamp = Date_now env (tick w),
                    emailsChecked = or_zero (c_emailCount ctx),
                    tasksExtracted = 0,
                    l_status = LogError,
                    l_error = Some (error_message e)\<rparr> w)"

definition updateTaskListStep :: "env \<Rightarrow> tool \<Rightarrow> step_context \<Rightarrow> world \<Rightarrow> (error + summary) \<times> world" where
  "updateTaskListStep env tool ctx w =
     (case tool \<lparr>action = ListTasks, maxResults = None, taskId = None, i_note = None\<rparr> w of
        (Inl e, w') \<Rightarrow> updateTaskListStep_catch env ctx e w'
      | (Inr listResult, w') \<Rightarrow>
          (if success listResult
           then (case r_tasks listResult of
                   None \<Rightarrow> updateTaskListStep_catch env ctx length_of_undefined w'
                 | Some tasks \<Rightarrow>
                     (Inr \<lparr>s_success = True, totalTasks = length tasks,
                           newTasks = c_taskCount ctx,
                           s_message = ''Task refresh completed successfully. Extracted '' @
                                       show_count (c_taskCount ctx) @ '' tasks from '' @
                                       show_count (c_emailCount ctx) @ '' emails.''\<rparr>,
                      logExecution \<lparr>timestamp = Date_now env (tick w'),
                                    emailsChecked = or_zero (c_emailCount ctx),
                                    tasksExtracted = or_zero (c_taskCount ctx),
                                    l_status = LogSuccess,
                                    l_error = None\<rparr> w'))
           else updateTaskListStep_catch env ctx (Error ''Failed to verify task list update'') w'))"

definition workflow :: "env \<Rightarrow> tool \<Rightarrow> world \<Rightarrow> (error + summary) \<times> world" where
  "workflow env tool w =
     (case fetchEmailsStep tool w of
        (Inl e, w1) \<Rightarrow> (Inl e, w1)
      | (Inr ctx1, w1) \<Rightarrow>
          (case extractTasksStep tool ctx1 w1 of
             (Inl e, w2) \<Rightarrow> (Inl e, w2)
           | (Inr ctx2, w2) \<Rightarrow> updateTaskListStep env tool ctx2 w2))"

text \<open>\<^verbatim>\<open>taskRefreshWorkflow\<close>: the three steps over the repository's own tool.\<close>

definition taskRefreshWorkflow :: "env \<Rightarrow> world \<Rightarrow> (error + summary) \<times> world" where
  "taskRefreshWorkflow env w = workflow env (emailTool_execute env) w"

section \<open>A sample inbox\<close>

text \<open>
  Concrete data on which the theorems below are instantiated: three unread messages,
  \<open>A\<close> from a no-reply address announcing a sale, \<open>B\<close> asking for a report, \<open>C\<close> a greeting;
  a model that finds a task in the message about the report and none elsewhere.
\<close>

definition sample_payload_A :: part where
  "sample_payload_A =
     Part (Some ''text/plain'')
          [\<lparr>h_name = ''From'', h_value = ''No-Reply@shop.example''\<rparr>,
           \<lparr>h_name = ''Subject'', h_value = ''Winter sale''\<rparr>]
          None (Some (Part None [] (Some ''QQ=='') None None)) None"

definition sample_payload_B :: part where
  "sample_payload_B =
     Part (Some ''text/plain'')
          [\<lparr>h_name = ''From'', h_value = ''boss@corp.example''\<rparr>,
           \<lparr>h_name = ''Subject'', h_value = ''Report''\<rparr>,
           \<lparr>h_name = ''Date'', h_value = ''Mon, 6 Jan 2025''\<rparr>]
          None (Some (Part None [] (Some ''Qg=='') None None)) None"

definition sample_payload_C :: part where
  "sample_payload_C =
     Part (Some ''text/plain'')
          [\<lparr>h_name = ''From'', h_value = ''friend@mail.example''\<rparr>,
           \<lparr>h_name = ''Subject'', h_value = ''Hello''\<rparr>]
          None (Some (Part None [] (Some ''Qw=='') None None)) None"

definition sample_base64 :: "string \<Rightarrow> string" where
  "sample_base64 d =
     (if d = ''QQ=='' then ''Everything must go''
      else if d = ''Qg=='' then ''Send the figures by Friday''
      else if d = ''Qw=='' then ''How are you''
      else [])"

definition sample_task_text :: string where
  "sample_task_text =
     ''{'' @ [CHR 0x22] @ ''description'' @ [CHR 0x22] @ '':'' @ [CHR 0x22] @ ''Send figures'' @ [CHR 0x22] @
     '','' @ [CHR 0x22] @ ''priority'' @ [CHR 0x22] @ '':'' @ [CHR 0x22] @ ''high'' @ [CHR 0x22] @
     '','' @ [CHR 0x22] @ ''dueDate'' @ [CHR 0x22] @ '':'' @ [CHR 0x22] @ ''2025-01-10'' @ [CHR 0x22] @ ''}''"

definition sample_task_json :: js where
  "sample_task_json =
     JObj [(''description'', JStr ''Send figures''), (''priority'', JStr ''high''),
           (''dueDate'', JStr ''2025-01-10'')]"

definition sample_noTask_text :: string where
  "sample_noTask_text = ''{'' @ [CHR 0x22] @ ''noTask'' @ [CHR 0x22] @ '':true}''"

definition sample_parse :: "string \<Rightarrow> js option" where
  "sample_parse text =
     (if text = sample_task_text then Some sample_task_json
      else if text = sample_noTask_text then Some (JObj [(''noTask'', JBool True)])
      else if text = ''{}'' then Some (JObj [])
      else if text = ''null'' then Some JNull
      else None)"

definition sample_env :: env where
  "sample_env =
     \<lparr>messages_list = (\<lambda>k n. Some [''A'', ''B'', ''C'']),
      messages_get = (\<lambda>k mid.
         if mid = ''A'' then Some (Some sample_payload_A)
         else if mid = ''B'' then Some (Some sample_payload_B)
         else if mid = ''C'' then Some (Some sample_payload_C)
         else None),
      generateText = (\<lambda>k prompt.
         if str_includes prompt ''Subject: Report'' then Some sample_task_text
         else Some sample_noTask_text),
      JSON_parse = sample_parse,
      base64_utf8 = sample_base64,
      Date_now = (\<lambda>k. 1736150400000 + k)\<rparr>"

definition empty_world :: world where
  "empty_world = \<lparr>taskStore = [], executionLogs = [], tick = 0, submitted = []\<rparr>"

definition sample_email_B :: email where
  "sample_email_B =
     \<lparr>e_id = ''B'', e_subject = ''Report'', e_from = ''boss@corp.example'',
      e_date = ''Mon, 6 Jan 2025'', e_body = ''Send the figures by Friday''\<rparr>"

definition sample_email_C :: email where
  "sample_email_C =
     \<lparr>e_id = ''C'', e_subject = ''Hello'', e_from = ''friend@mail.example'',
      e_date = [], e_body = ''How are you''\<rparr>"

definition sample_task :: Task where
  "sample_task = make_task sample_email_B 1736150400009 (JStr ''Send figures'') (JStr ''high'')
                   (JStr ''2025-01-10'') JUndefined"

text \<open>
  A two-part message whose plain-text alternative is empty and whose HTML alternative holds
  the text, as mail clients that write HTML only produce it.
\<close>

definition sample_html_part :: part where
  "sample_html_part =
     Part (Some ''text/html'') [] None (Some (Part None [] (Some ''PGI+SGk8L2I+'') None None)) None"

definition sample_alternative :: part where
  "sample_alternative =
     Part (Some ''multipart/alternative'') [] None None
          (Some [Part (Some ''text/plain'') [] None (Some (Part None [] None None None)) None,
                 sample_html_part])"

definition html_base64 :: "string \<Rightarrow> string" where
  "html_base64 d = (if d = ''PGI+SGk8L2I+'' then ''<b>Hi</b>'' else [])"

text \<open>
  Two variations of the sample: a clock that does not advance between two calls (they fall
  in the same millisecond), and a model whose answer is valid JSON without any of the
  fields asked for.
\<close>

definition frozen_env :: env where
  "frozen_env = sample_env\<lparr>Date_now := (\<lambda>k. 1736150400000)\<rparr>"



text \<open>
  A Message Source whose list call throws, and one whose inbox changes after the first
  call: message \<open>C\<close> is unread at first, message \<open>B\<close> afterwards.
\<close>

definition down_env :: env where
  "down_env = sample_env\<lparr>messages_list := (\<lambda>k n. None)\<rparr>"






section \<open>Theorems\<close>

subsection \<open>Auxiliary facts\<close>






text \<open>What each operation leaves untouched, and who is handed to the extractor.\<close>

lemma getEmails_loop_frame:
  "getEmails_loop env ids acc w = (r, w') \<Longrightarrow>
   taskStore w' = taskStore w \<and> executionLogs w' = executionLogs w \<and> submitted w' = submitted w"
proof (induction ids arbitrary: acc w)
  case Nil
  then show ?case by auto
next
  case (Cons mid rest)
  then show ?case
    by (auto simp: await_def split: option.splits if_splits)
qed

lemma getEmails_frame:
  "getEmails env n w = (r, w') \<Longrightarrow>
   taskStore w' = taskStore w \<and> executionLogs w' = executionLogs w \<and> submitted w' = submitted w"
  by (auto simp: getEmails_def await_def split: option.splits dest: getEmails_loop_frame)

lemma extractTasksFromEmail_frame:
  "extractTasksFromEmail env email w = (r, w') \<Longrightarrow>
   submitted w' = submitted w @ [email] \<and> executionLogs w' = executionLogs w \<and> tick w' = Suc (tick w)"
  by (auto simp: extractTasksFromEmail_def extractTasksFromEmail_try_def await_def Let_def
           split: option.splits sum.splits if_splits prod.splits)

lemma extractTasks_loop_frame:
  "extractTasks_loop env emails tasks w = (ts, w') \<Longrightarrow>
   submitted w' = submitted w @ emails \<and> executionLogs w' = executionLogs w \<and>
   tick w' = tick w + length emails"
proof (induction emails arbitrary: tasks w)
  case Nil
  then show ?case by simp
next
  case (Cons email rest)
  obtain r w1 where step: "extractTasksFromEmail env email w = (r, w1)"
    by (cases "extractTasksFromEmail env email w")
  from extractTasksFromEmail_frame [OF step]
  have f: "submitted w1 = submitted w @ [email]" "executionLogs w1 = executionLogs w"
    "tick w1 = Suc (tick w)" by auto
  show ?case
  proof (cases r)
    case None
    with step Cons.prems have "extractTasks_loop env rest tasks w1 = (ts, w')" by simp
    from Cons.IH [OF this] f show ?thesis by simp
  next
    case (Some t)
    with step Cons.prems have "extractTasks_loop env rest (tasks @ [t]) w1 = (ts, w')" by simp
    from Cons.IH [OF this] f show ?thesis by simp
  qed
qed


text \<open>Task identifiers: the decimal digits hold no hyphen and determine the number.\<close>

lemma digit_not_dash: "n < 10 \<Longrightarrow> ''0123456789'' ! n \<noteq> CHR ''-''"
proof -
  assume "n < 10"
  then have "''0123456789'' ! n \<in> set ''0123456789''"
    by (intro nth_mem) simp
  then show ?thesis by auto
qed

lemma digit_inj: "a < 10 \<Longrightarrow> b < 10 \<Longrightarrow> ''0123456789'' ! a = ''0123456789'' ! b \<Longrightarrow> a = b"
proof -
  assume a: "a < 10" and b: "b < 10" and e: "''0123456789'' ! a = ''0123456789'' ! b"
  have "distinct ''0123456789''" by simp
  moreover have "a < length ''0123456789''" "b < length ''0123456789''" using a b by simp_all
  ultimately show "a = b" using e by (simp only: nth_eq_iff_index_eq)
qed

lemma show_nat_no_dash: "CHR ''-'' \<notin> set (show_nat n)"
proof (induction n rule: show_nat.induct)
  case (1 n)
  show ?case
  proof (cases "n < 10")
    case True
    then show ?thesis
      using digit_not_dash [of n] by (subst show_nat.simps) auto
  next
    case False
    have "n mod 10 < 10" by simp
    from digit_not_dash [OF this] 1 [OF False] False show ?thesis
      by (subst show_nat.simps) auto
  qed
qed

lemma show_nat_nonempty: "show_nat n \<noteq> []"
  by (subst show_nat.simps) simp

lemma show_nat_inj: "show_nat a = show_nat b \<Longrightarrow> a = b"
proof (induction a arbitrary: b rule: show_nat.induct)
  case (1 a)
  show ?case
  proof (cases "a < 10")
    case a: True
    show ?thesis
    proof (cases "b < 10")
      case True
      with a 1(2) show ?thesis
        by (subst (asm) show_nat.simps, subst (asm) (2) show_nat.simps) (auto dest: digit_inj)
    next
      case False
      have "show_nat a = [''0123456789'' ! a]" using a by (subst show_nat.simps) simp
      moreover have "show_nat b = show_nat (b div 10) @ [''0123456789'' ! (b mod 10)]"
        using False by (subst show_nat.simps) simp
      ultimately show ?thesis using 1(2) show_nat_nonempty [of "b div 10"] by simp
    qed
  next
    case a: False
    have sa: "show_nat a = show_nat (a div 10) @ [''0123456789'' ! (a mod 10)]"
      using a by (subst show_nat.simps) simp
    show ?thesis
    proof (cases "b < 10")
      case True
      have "show_nat b = [''0123456789'' ! b]" using True by (subst show_nat.simps) simp
      with sa 1(2) show_nat_nonempty [of "a div 10"] show ?thesis by simp
    next
      case False
      have sb: "show_nat b = show_nat (b div 10) @ [''0123456789'' ! (b mod 10)]"
        using False by (subst show_nat.simps) simp
      from sa sb 1(2) have e: "show_nat (a div 10) = show_nat (b div 10)"
        "''0123456789'' ! (a mod 10) = ''0123456789'' ! (b mod 10)" by simp_all
      from 1(1) [OF a e(1)] have d: "a div 10 = b div 10" .
      have "a mod 10 < 10" "b mod 10 < 10" by simp_all
      from digit_inj [OF this e(2)] have m: "a mod 10 = b mod 10" .
      have "a = 10 * (a div 10) + a mod 10" by simp
      also have "\<dots> = 10 * (b div 10) + b mod 10" using d m by simp
      also have "\<dots> = b" by simp
      finally show ?thesis .
    qed
  qed
qed

lemma takeWhile_upto: "c \<notin> set zs \<Longrightarrow> takeWhile (\<lambda>x. x \<noteq> c) (zs @ c # ws) = zs"
  by (induction zs) auto

lemma split_at_last:
  assumes "xs @ c # ys = xs' @ c # ys'" and "c \<notin> set ys" and "c \<notin> set ys'"
  shows "xs = xs' \<and> ys = ys'"
proof -
  have "takeWhile (\<lambda>x. x \<noteq> c) (rev (xs @ c # ys)) = rev ys"
    using assms(2) by (simp add: takeWhile_upto)
  moreover have "takeWhile (\<lambda>x. x \<noteq> c) (rev (xs' @ c # ys')) = rev ys'"
    using assms(3) by (simp add: takeWhile_upto)
  ultimately have "rev ys = rev ys'" using assms(1) by simp
  then have "ys = ys'" by simp
  with assms(1) show ?thesis by simp
qed

lemma task_id_inj: "task_id m1 n1 = task_id m2 n2 \<Longrightarrow> m1 = m2 \<and> n1 = n2"
proof -
  assume "task_id m1 n1 = task_id m2 n2"
  then have "m1 @ CHR ''-'' # show_nat n1 = m2 @ CHR ''-'' # show_nat n2"
    by (simp add: task_id_def)
  from split_at_last [OF this show_nat_no_dash show_nat_no_dash]
  show ?thesis by (auto dest: show_nat_inj)
qed

text \<open>The two ways out of the extractor.\<close>

lemma extractor_Some:
  assumes "extractTasksFromEmail env email w = (Some task, w')"
  shows "\<exists>reply result description priority dueDate ctx.
           generateText env (tick w) (prompt_of email) = Some reply \<and>
           JSON_parse env reply = Some result \<and>
           get_prop result ''description'' = Inr description \<and>
           get_prop result ''priority'' = Inr priority \<and>
           get_prop result ''dueDate'' = Inr dueDate \<and>
           get_prop result ''context'' = Inr ctx \<and>
           task = make_task email (Date_now env (Suc (tick w))) description priority dueDate ctx \<and>
           w' = (await (w\<lparr>submitted := submitted w @ [email]\<rparr>))
                  \<lparr>taskStore := AList.update (t_id task) task (taskStore w)\<rparr>"
  using assms
  by (auto simp: extractTasksFromEmail_def extractTasksFromEmail_try_def await_def Let_def
           split: option.splits sum.splits if_splits)



lemma extractor_None_store:
  "extractTasksFromEmail env email w = (None, w') \<Longrightarrow> taskStore w' = taskStore w"
  by (auto simp: extractTasksFromEmail_def extractTasksFromEmail_try_def await_def Let_def
           split: option.splits sum.splits if_splits)

lemma workflow_of_parts:
  assumes "getEmails env (Some 20) w = (Inr es1, w1)"
    and "getEmails env (Some 20) w1 = (Inr es2, w2)"
    and "extractTasks_loop env es2 [] w2 = (ts, w3)"
  shows "\<exists>res. taskRefreshWorkflow env w =
           (Inr res, logExecution \<lparr>timestamp = Date_now env (tick w3), emailsChecked = length es1,
                               tasksExtracted = length ts, l_status = LogSuccess, l_error = None\<rparr> w3)"
  using assms
  by (simp add: taskRefreshWorkflow_def workflow_def fetchEmailsStep_def
        extractTasksStep_def updateTaskListStep_def emailTool_execute_def Let_def)

text \<open>Listing the tasks through the repository's own tool always succeeds.\<close>

lemma emailTool_listTasks:
  "emailTool_execute env \<lparr>action = ListTasks, maxResults = m, taskId = ti, i_note = nt\<rparr> w =
     (Inr \<lparr>success = True, r_emails = None, r_tasks = Some (getAllTasks (taskStore w)),
           r_message = ''Found '' @ show_nat (length (getAllTasks (taskStore w))) @ '' tasks''\<rparr>, w)"
  by (simp add: emailTool_execute_def Let_def)




















text \<open>The run over the sample inbox, evaluated step by step.\<close>

lemma sample_fetch:
  "getEmails sample_env (Some 20) w = (Inr [sample_email_B, sample_email_C], w\<lparr>tick := tick w + 4\<rparr>)"
  by (simp add: getEmails_def sample_env_def await_def isPromotionalEmail_def
      fromHeader_def subjectHeader_def find_value_def toLowerCase_def lower_char_def promotionalKeywords_def
      sample_payload_A_def sample_payload_B_def sample_payload_C_def sample_base64_def email_of_def
      sample_email_B_def sample_email_C_def)

lemma sample_extract_B:
  "extractTasksFromEmail sample_env sample_email_B w =
     (Some (make_task sample_email_B (1736150400000 + Suc (tick w)) (JStr ''Send figures'') (JStr ''high'')
              (JStr ''2025-01-10'') JUndefined),
      w\<lparr>submitted := submitted w @ [sample_email_B], tick := Suc (tick w),
        taskStore := AList.update (task_id ''B'' (1736150400000 + Suc (tick w)))
           (make_task sample_email_B (1736150400000 + Suc (tick w)) (JStr ''Send figures'') (JStr ''high'')
              (JStr ''2025-01-10'') JUndefined) (taskStore w)\<rparr>)"
proof -
  have p: "str_includes (prompt_of sample_email_B) ''Subject: Report''"
    by (simp add: prompt_of_def sample_email_B_def)
  have j: "sample_parse sample_task_text = Some sample_task_json"
    by (simp add: sample_parse_def)
  show ?thesis
    using p j
    by (simp add: extractTasksFromEmail_def extractTasksFromEmail_try_def sample_env_def await_def
        sample_task_json_def make_task_def sample_email_B_def Let_def)
qed

lemma sample_extract_C:
  "extractTasksFromEmail sample_env sample_email_C w =
     (None, w\<lparr>submitted := submitted w @ [sample_email_C], tick := Suc (tick w)\<rparr>)"
proof -
  have p: "\<not> str_includes (prompt_of sample_email_C) ''Subject: Report''"
    by (simp add: prompt_of_def sample_email_C_def)
  have j: "sample_parse sample_noTask_text = Some (JObj [(''noTask'', JBool True)])"
    by (simp add: sample_parse_def sample_task_text_def sample_noTask_text_def)
  show ?thesis
    using p j
    by (simp add: extractTasksFromEmail_def extractTasksFromEmail_try_def sample_env_def await_def)
qed

lemma sample_run:
  "taskRefreshWorkflow sample_env empty_world =
     (Inr \<lparr>s_success = True, totalTasks = 1, newTasks = Some 1,
           s_message = ''Task refresh completed successfully. Extracted 1 tasks from 2 emails.''\<rparr>,
      \<lparr>taskStore = [(''task-B-1736150400009'', sample_task)],
       executionLogs = [\<lparr>timestamp = 1736150400010, emailsChecked = 2, tasksExtracted = 1,
                         l_status = LogSuccess, l_error = None\<rparr>],
       tick = 10,
       submitted = [sample_email_B, sample_email_C]\<rparr>)"
proof -
  have t: "show_nat 1736150400009 = ''1736150400009''"
    by (simp add: show_nat.simps)
  have n: "show_nat (Suc 0) = ''1''" "show_nat 2 = ''2''"
    by (simp_all add: show_nat.simps)
  have c: "Date_now sample_env k = 1736150400000 + k" for k
    by (simp add: sample_env_def)
  have s1: "fetchEmailsStep (emailTool_execute sample_env) empty_world =
      (Inr \<lparr>c_emails = Some [sample_email_B, sample_email_C], c_emailCount = Some 2,
            c_tasks = None, c_taskCount = None\<rparr>, empty_world\<lparr>tick := 4\<rparr>)"
    by (simp add: fetchEmailsStep_def emailTool_execute_def sample_fetch empty_world_def)
  have s2: "extractTasksStep (emailTool_execute sample_env)
       \<lparr>c_emails = Some [sample_email_B, sample_email_C], c_emailCount = Some 2,
            c_tasks = None, c_taskCount = None\<rparr> (empty_world\<lparr>tick := 4\<rparr>) =
      (Inr \<lparr>c_emails = Some [sample_email_B, sample_email_C], c_emailCount = Some 2,
            c_tasks = Some [sample_task], c_taskCount = Some 1\<rparr>,
       \<lparr>taskStore = [(''task-B-1736150400009'', sample_task)], executionLogs = [],
        tick = 10, submitted = [sample_email_B, sample_email_C]\<rparr>)"
    by (simp add: extractTasksStep_def emailTool_execute_def sample_fetch sample_extract_B
        sample_extract_C empty_world_def task_id_def t sample_task_def)
  show ?thesis
    by (simp add: taskRefreshWorkflow_def workflow_def s1 s2 updateTaskListStep_def
        emailTool_execute_def getAllTasks_def logExecution_def n c)
qed

subsection \<open>Eligibility Filter\<close>




subsection \<open>Task Extractor\<close>

text \<open>
  Claim C6, as amended. Every task the extractor returns has status pending; its priority
  is the priority of the response when that is truthy and \<open>medium\<close> otherwise, so
  \<open>medium\<close> whenever the response omits it; its notes are the one-element sequence holding
  the context of the response when that is truthy and the empty string otherwise; its
  identifier is \<open>task-\<close>, the source message identifier, a hyphen and the decimal
  millisecond clock reading, which no other pair of message identifier and clock reading
  yields; and the store returned with it holds the task under that identifier. No check
  makes the identifier new to the store.
\<close>

theorem extractor_task_shape:
  assumes "extractTasksFromEmail env email w = (Some task, w')"
  shows "\<exists>reply result description priority dueDate ctx.
           generateText env (tick w) (prompt_of email) = Some reply \<and>
           JSON_parse env reply = Some result \<and>
           get_prop result ''description'' = Inr description \<and>
           get_prop result ''priority'' = Inr priority \<and>
           get_prop result ''dueDate'' = Inr dueDate \<and>
           get_prop result ''context'' = Inr ctx \<and>
           task = make_task email (Date_now env (Suc (tick w))) description priority dueDate ctx \<and>
           t_status task = pending \<and>
           t_priority task = (if truthy priority then priority else JStr ''medium'') \<and>
           (priority = JUndefined \<longrightarrow> t_priority task = JStr ''medium'') \<and>
           t_notes task = [if truthy ctx then ctx else JStr []] \<and>
           (ctx = JUndefined \<longrightarrow> t_notes task = [JStr []]) \<and>
           t_emailId task = e_id email \<and>
           t_id task = ''task-'' @ e_id email @ ''-'' @ show_nat (Date_now env (Suc (tick w))) \<and>
           (\<forall>mid now. task_id mid now = t_id task \<longrightarrow>
                        mid = e_id email \<and> now = Date_now env (Suc (tick w))) \<and>
           taskStore w' = AList.update (t_id task) task (taskStore w) \<and>
           map_of (taskStore w') (t_id task) = Some task"
proof -
  from extractor_Some [OF assms]
  obtain reply result description priority dueDate ctx where
    f: "generateText env (tick w) (prompt_of email) = Some reply"
       "JSON_parse env reply = Some result"
       "get_prop result ''description'' = Inr description"
       "get_prop result ''priority'' = Inr priority"
       "get_prop result ''dueDate'' = Inr dueDate"
       "get_prop result ''context'' = Inr ctx"
       "task = make_task email (Date_now env (Suc (tick w))) description priority dueDate ctx"
       "w' = (await (w\<lparr>submitted := submitted w @ [email]\<rparr>))
                  \<lparr>taskStore := AList.update (t_id task) task (taskStore w)\<rparr>"
    by blast
  have id: "t_id task = task_id (e_id email) (Date_now env (Suc (tick w)))"
    using f(7) by (simp add: make_task_def)
  have inj: "\<forall>mid now. task_id mid now = t_id task \<longrightarrow>
                        mid = e_id email \<and> now = Date_now env (Suc (tick w))"
    unfolding id using task_id_inj by blast
  have st: "taskStore w' = AList.update (t_id task) task (taskStore w)"
    using f(8) by (simp add: await_def)
  have shape: "t_status task = pending"
    "t_priority task = (if truthy priority then priority else JStr ''medium'')"
    "t_notes task = [if truthy ctx then ctx else JStr []]"
    "t_emailId task = e_id email"
    "t_id task = ''task-'' @ e_id email @ ''-'' @ show_nat (Date_now env (Suc (tick w)))"
    using f(7) by (simp_all add: make_task_def js_or_def task_id_def)
  have dflt: "priority = JUndefined \<longrightarrow> t_priority task = JStr ''medium''"
    "ctx = JUndefined \<longrightarrow> t_notes task = [JStr []]"
    using shape by simp_all
  have look: "map_of (taskStore w') (t_id task) = Some task"
    using st by (simp add: update_conv')
  from f(1-7) shape dflt inj st look show ?thesis by blast
qed

theorem extractor_task_shape_witness:
  "extractTasksFromEmail sample_env sample_email_B empty_world =
     (Some (sample_task\<lparr>t_id := ''task-B-1736150400001'', t_createdAt := 1736150400001\<rparr>),
      \<lparr>taskStore = [(''task-B-1736150400001'',
                     sample_task\<lparr>t_id := ''task-B-1736150400001'', t_createdAt := 1736150400001\<rparr>)],
       executionLogs = [], tick = 1, submitted = [sample_email_B]\<rparr>) \<and>
   t_priority (sample_task\<lparr>t_id := ''task-B-1736150400001'', t_createdAt := 1736150400001\<rparr>) = JStr ''high'' \<and>
   t_notes (sample_task\<lparr>t_id := ''task-B-1736150400001'', t_createdAt := 1736150400001\<rparr>) = [JStr []]"
proof -
  have t: "show_nat 1736150400001 = ''1736150400001''"
    by (simp add: show_nat.simps)
  have b: "e_id sample_email_B = ''B''"
    by (simp add: sample_email_B_def)
  have run: "extractTasksFromEmail sample_env sample_email_B empty_world =
     (Some (sample_task\<lparr>t_id := ''task-B-1736150400001'', t_createdAt := 1736150400001\<rparr>),
      \<lparr>taskStore = [(''task-B-1736150400001'',
                     sample_task\<lparr>t_id := ''task-B-1736150400001'', t_createdAt := 1736150400001\<rparr>)],
       executionLogs = [], tick = 1, submitted = [sample_email_B]\<rparr>)"
    by (simp add: sample_extract_B empty_world_def sample_task_def make_task_def task_id_def t b)
  from extractor_task_shape [OF run] run show ?thesis
    by (auto simp: sample_task_def make_task_def js_or_def)
qed

text \<open>
  Claim C6 as stated fails: two extractions of the same message within one millisecond
  build the same identifier, so the second task takes an identifier that is already in
  the store and replaces the first.
\<close>

theorem task_id_not_fresh_counterexample:
  "\<exists>t1 w1 t2 w2.
     extractTasksFromEmail frozen_env sample_email_B empty_world = (Some t1, w1) \<and>
     extractTasksFromEmail frozen_env sample_email_B w1 = (Some t2, w2) \<and>
     t_id t2 \<in> fst ` set (taskStore w1) \<and>
     t_id t2 = t_id t1 \<and>
     length (taskStore w2) = 1"
proof -
  have p: "str_includes (prompt_of sample_email_B) ''Subject: Report''"
    by (simp add: prompt_of_def sample_email_B_def)
  have j: "sample_parse sample_task_text = Some sample_task_json"
    by (simp add: sample_parse_def)
  have e: "extractTasksFromEmail frozen_env sample_email_B w =
     (Some (make_task sample_email_B 1736150400000 (JStr ''Send figures'') (JStr ''high'')
              (JStr ''2025-01-10'') JUndefined),
      w\<lparr>submitted := submitted w @ [sample_email_B], tick := Suc (tick w),
        taskStore := AList.update (task_id ''B'' 1736150400000)
           (make_task sample_email_B 1736150400000 (JStr ''Send figures'') (JStr ''high'')
              (JStr ''2025-01-10'') JUndefined) (taskStore w)\<rparr>)" for w
    using p j
    by (simp add: extractTasksFromEmail_def extractTasksFromEmail_try_def frozen_env_def
        sample_env_def await_def sample_task_json_def make_task_def sample_email_B_def Let_def)
  have b: "e_id sample_email_B = ''B''"
    by (simp add: sample_email_B_def)
  show ?thesis
    by (simp add: e empty_world_def make_task_def b)
qed




subsection \<open>Task store operations\<close>

text \<open>
  Claim C8. For every store: \<^verbatim>\<open>markTaskComplete\<close> on an identifier that is present returns
  true and leaves the task there with status completed, whatever its status was, so that
  marking it again changes nothing and returns true again; \<^verbatim>\<open>markTaskComplete\<close> and
  \<^verbatim>\<open>addTaskNote\<close> on an identifier that is absent return false and leave the store as it
  was. Neither has an exception among its results, and called through the tool with an
  absent identifier they return a result with \<^verbatim>\<open>success: false\<close> and leave the world as it was.
\<close>

theorem markComplete_addNote_contract:
  "(map_of store tid = Some task \<longrightarrow>
      markTaskComplete tid store = (True, AList.update tid (task\<lparr>t_status := completed\<rparr>) store) \<and>
      map_of (snd (markTaskComplete tid store)) tid = Some (task\<lparr>t_status := completed\<rparr>) \<and>
      markTaskComplete tid (snd (markTaskComplete tid store)) = markTaskComplete tid store) \<and>
   (map_of store tid = None \<longrightarrow>
      markTaskComplete tid store = (False, store) \<and>
      addTaskNote tid n store = (False, store)) \<and>
   (map_of (taskStore w) tid = None \<longrightarrow>
      (\<exists>msg. emailTool_execute env
                \<lparr>action = MarkComplete, maxResults = m, taskId = Some tid, i_note = nt\<rparr> w
              = (Inr (plain_result False msg), w)) \<and>
      (\<exists>msg. emailTool_execute env
                \<lparr>action = AddNote, maxResults = m, taskId = Some tid, i_note = nt\<rparr> w
              = (Inr (plain_result False msg), w)))"
  by (auto simp: markTaskComplete_def addTaskNote_def update_conv' emailTool_execute_def)

theorem markComplete_addNote_contract_witness:
  "markTaskComplete (t_id sample_task) [(t_id sample_task, sample_task\<lparr>t_status := completed\<rparr>)]
     = (True, [(t_id sample_task, sample_task\<lparr>t_status := completed\<rparr>)]) \<and>
   markTaskComplete ''task-Z-1'' [(t_id sample_task, sample_task)]
     = (False, [(t_id sample_task, sample_task)]) \<and>
   addTaskNote ''task-Z-1'' ''call back'' [(t_id sample_task, sample_task)]
     = (False, [(t_id sample_task, sample_task)]) \<and>
   (\<exists>msg. emailTool_execute sample_env
             \<lparr>action = MarkComplete, maxResults = None, taskId = Some ''task-Z-1'', i_note = None\<rparr>
             empty_world
           = (Inr (plain_result False msg), empty_world))"
  using markComplete_addNote_contract
          [of "[(t_id sample_task, sample_task\<lparr>t_status := completed\<rparr>)]" "t_id sample_task"
              "sample_task\<lparr>t_status := completed\<rparr>" "''x''" empty_world sample_env None None]
        markComplete_addNote_contract
          [of "[(t_id sample_task, sample_task)]" "''task-Z-1''" sample_task "''call back''"
              empty_world sample_env None None]
  by (simp add: sample_task_def make_task_def task_id_def sample_email_B_def empty_world_def)

text \<open>
  Claim C9. For every task present in the store, three calls of \<^verbatim>\<open>addTaskNote\<close> with the
  notes \<open>n1\<close>, \<open>n2\<close>, \<open>n3\<close> all return true, and afterwards the notes of the task are the
  notes it had, unaltered and in their order, followed by \<open>n1\<close>, \<open>n2\<close>, \<open>n3\<close> in call order:
  three elements more, and no other field of the task changed.
\<close>

theorem addNote_three_times:
  assumes "map_of store tid = Some task"
  shows "\<exists>s1 s2 s3 task3.
           addTaskNote tid n1 store = (True, s1) \<and>
           addTaskNote tid n2 s1 = (True, s2) \<and>
           addTaskNote tid n3 s2 = (True, s3) \<and>
           map_of s3 tid = Some task3 \<and>
           t_notes task3 = t_notes task @ [JStr n1, JStr n2, JStr n3] \<and>
           length (t_notes task3) = length (t_notes task) + 3 \<and>
           take (length (t_notes task)) (t_notes task3) = t_notes task \<and>
           task3 = task\<lparr>t_notes := t_notes task3\<rparr>"
  using assms by (simp add: addTaskNote_def update_conv')

theorem addNote_three_times_witness:
  "map_of [(t_id sample_task, sample_task)] (t_id sample_task) = Some sample_task \<and>
   (\<exists>s1 s2 s3 task3.
      addTaskNote (t_id sample_task) ''a'' [(t_id sample_task, sample_task)] = (True, s1) \<and>
      addTaskNote (t_id sample_task) ''b'' s1 = (True, s2) \<and>
      addTaskNote (t_id sample_task) ''c'' s2 = (True, s3) \<and>
      map_of s3 (t_id sample_task) = Some task3 \<and>
      t_notes task3 = [JStr [], JStr ''a'', JStr ''b'', JStr ''c''])"
proof -
  have h: "map_of [(t_id sample_task, sample_task)] (t_id sample_task) = Some sample_task"
    by simp
  have n: "t_notes sample_task = [JStr []]"
    by (simp add: sample_task_def make_task_def js_or_def)
  from addNote_three_times [OF h, of "''a''" "''b''" "''c''"] h n show ?thesis
    by auto
qed

subsection \<open>Content Decoder\<close>

text \<open>
  Claim C4. The decoder does not return the first decodable text of the traversal: at a
  part of type text/plain or text/html it returns whatever that part's body decodes to,
  also when that is empty, and never looks at the parts listed after it. On the two-part
  message whose first alternative is an empty text/plain part and whose second is a
  text/html part holding \<open><b>Hi</b>\<close>, it returns the empty string, although the second
  part alone decodes to its text.
\<close>

theorem decoder_stops_at_empty_text_part:
  "decodeEmailBody html_base64 (Some sample_alternative) = [] \<and>
   decodeEmailBody_parts html_base64 [sample_html_part] = ''<b>Hi</b>'' \<and>
   decodeEmailBody html_base64 (Some (Part None [] None None (Some [sample_html_part]))) = ''<b>Hi</b>''"
  by (simp add: sample_alternative_def sample_html_part_def html_base64_def)

subsection \<open>The refresh workflow\<close>

text \<open>
  Claim C1, as amended. Take a run that starts with an empty store over an inbox that
  holds three unread messages throughout, where message \<open>a\<close> is promotional, \<open>b\<close> and
  \<open>c\<close> are not, the extractor yields a task for \<open>b\<close> and none for \<open>c\<close>. It succeeds and
  appends one log entry with \<open>emailsChecked = 2\<close>, the number of eligible messages (the
  promotional message is filtered out before the count is taken), \<open>tasksExtracted = 1\<close> and
  status success; afterwards the store holds exactly one task, and its source message
  identifier is \<open>b\<close>.
\<close>

theorem run_example_counts_eligible:
  assumes store: "taskStore w = []"
    and inbox: "\<And>k. messages_list env k 20 = Some [a, b, c]"
    and pa: "\<And>k. messages_get env k a = Some pa"
    and pb: "\<And>k. messages_get env k b = Some pb"
    and pc: "\<And>k. messages_get env k c = Some pc"
    and promoA: "isPromotionalEmail (payload_headers pa) (payload_body (base64_utf8 env) pa)"
    and eligB: "\<not> isPromotionalEmail (payload_headers pb) (payload_body (base64_utf8 env) pb)"
    and eligC: "\<not> isPromotionalEmail (payload_headers pc) (payload_body (base64_utf8 env) pc)"
    and taskB: "\<And>v. \<exists>t. fst (extractTasksFromEmail env (email_of (base64_utf8 env) b pb) v) = Some t"
    and noneC: "\<And>v. fst (extractTasksFromEmail env (email_of (base64_utf8 env) c pc) v) = None"
  shows "\<exists>res w' t.
           taskRefreshWorkflow env w = (Inr res, w') \<and>
           executionLogs w' = executionLogs w @
             [\<lparr>timestamp = Date_now env (tick w'), emailsChecked = 2, tasksExtracted = 1,
               l_status = LogSuccess, l_error = None\<rparr>] \<and>
           taskStore w' = [(t_id t, t)] \<and>
           getAllTasks (taskStore w') = [t] \<and>
           t_emailId t = b"
proof -
  let ?eB = "email_of (base64_utf8 env) b pb"
  let ?eC = "email_of (base64_utf8 env) c pc"
  have fetch: "\<exists>v'. getEmails env (Some 20) v = (Inr [?eB, ?eC], v') \<and>
                 taskStore v' = taskStore v \<and> executionLogs v' = executionLogs v" for v
  proof -
    have "fst (getEmails env (Some 20) v) = Inr [?eB, ?eC]"
      by (simp add: getEmails_def inbox pa pb pc promoA eligB eligC)
    then obtain v' where g: "getEmails env (Some 20) v = (Inr [?eB, ?eC], v')"
      by (cases "getEmails env (Some 20) v") simp
    from getEmails_frame [OF g] g show ?thesis by simp
  qed
  from fetch [of w] obtain w1 where
    g1: "getEmails env (Some 20) w = (Inr [?eB, ?eC], w1)"
    and f1: "taskStore w1 = taskStore w" "executionLogs w1 = executionLogs w"
    by blast
  from fetch [of w1] obtain w2 where
    g2: "getEmails env (Some 20) w1 = (Inr [?eB, ?eC], w2)"
    and f2: "taskStore w2 = taskStore w1" "executionLogs w2 = executionLogs w1"
    by blast
  from taskB [of w2] obtain t w3 where xb: "extractTasksFromEmail env ?eB w2 = (Some t, w3)"
    by (cases "extractTasksFromEmail env ?eB w2") auto
  from extractor_Some [OF xb] have tb: "t_emailId t = b"
    "taskStore w3 = AList.update (t_id t) t (taskStore w2)"
    by (auto simp: make_task_def email_of_def await_def)
  from noneC [of w3] obtain w4 where xc: "extractTasksFromEmail env ?eC w3 = (None, w4)"
    by (cases "extractTasksFromEmail env ?eC w3") auto
  from extractor_None_store [OF xc] have sc: "taskStore w4 = taskStore w3" .
  have loop: "extractTasks_loop env [?eB, ?eC] [] w2 = ([t], w4)"
    by (simp add: xb xc)
  from extractTasks_loop_frame [OF loop] have l4: "executionLogs w4 = executionLogs w2" by simp
  from workflow_of_parts [OF g1 g2 loop] obtain res where
    run: "taskRefreshWorkflow env w =
           (Inr res, logExecution \<lparr>timestamp = Date_now env (tick w4), emailsChecked = 2,
                               tasksExtracted = 1, l_status = LogSuccess, l_error = None\<rparr> w4)"
    by (auto simp: numeral_2_eq_2)
  let ?w' = "logExecution \<lparr>timestamp = Date_now env (tick w4), emailsChecked = 2,
                               tasksExtracted = 1, l_status = LogSuccess, l_error = None\<rparr> w4"
  have "executionLogs ?w' = executionLogs w @
             [\<lparr>timestamp = Date_now env (tick ?w'), emailsChecked = 2, tasksExtracted = 1,
               l_status = LogSuccess, l_error = None\<rparr>]"
    using l4 f2 f1 by (simp add: logExecution_def)
  moreover have "taskStore ?w' = [(t_id t, t)]"
    using sc tb(2) f2 f1 store by (simp add: logExecution_def)
  moreover then have "getAllTasks (taskStore ?w') = [t]"
    by (simp add: getAllTasks_def)
  ultimately show ?thesis using run tb(1) by blast
qed

theorem run_example_counts_eligible_witness:
  "taskStore empty_world = [] \<and>
   isPromotionalEmail (payload_headers (Some sample_payload_A))
      (payload_body (base64_utf8 sample_env) (Some sample_payload_A)) \<and>
   (\<exists>res w' t.
      taskRefreshWorkflow sample_env empty_world = (Inr res, w') \<and>
      executionLogs w' =
        [\<lparr>timestamp = 1736150400010, emailsChecked = 2, tasksExtracted = 1,
          l_status = LogSuccess, l_error = None\<rparr>] \<and>
      taskStore w' = [(t_id t, t)] \<and>
      t_emailId t = ''B'')"
proof -
  have store: "taskStore empty_world = []"
    by (simp add: empty_world_def)
  have inbox: "\<And>k. messages_list sample_env k 20 = Some [''A'', ''B'', ''C'']"
    by (simp add: sample_env_def)
  have pa: "\<And>k. messages_get sample_env k ''A'' = Some (Some sample_payload_A)"
    and pb: "\<And>k. messages_get sample_env k ''B'' = Some (Some sample_payload_B)"
    and pc: "\<And>k. messages_get sample_env k ''C'' = Some (Some sample_payload_C)"
    by (simp_all add: sample_env_def)
  have promoA: "isPromotionalEmail (payload_headers (Some sample_payload_A))
      (payload_body (base64_utf8 sample_env) (Some sample_payload_A))"
    by (simp add: sample_env_def isPromotionalEmail_def fromHeader_def subjectHeader_def
        find_value_def toLowerCase_def lower_char_def promotionalKeywords_def
        sample_payload_A_def sample_base64_def)
  have eligB: "\<not> isPromotionalEmail (payload_headers (Some sample_payload_B))
      (payload_body (base64_utf8 sample_env) (Some sample_payload_B))"
    by (simp add: sample_env_def isPromotionalEmail_def fromHeader_def subjectHeader_def
        find_value_def toLowerCase_def lower_char_def promotionalKeywords_def
        sample_payload_B_def sample_base64_def)
  have eligC: "\<not> isPromotionalEmail (payload_headers (Some sample_payload_C))
      (payload_body (base64_utf8 sample_env) (Some sample_payload_C))"
    by (simp add: sample_env_def isPromotionalEmail_def fromHeader_def subjectHeader_def
        find_value_def toLowerCase_def lower_char_def promotionalKeywords_def
        sample_payload_C_def sample_base64_def)
  have eb: "email_of (base64_utf8 sample_env) ''B'' (Some sample_payload_B) = sample_email_B"
    by (simp add: email_of_def sample_env_def sample_payload_B_def sample_base64_def
        find_value_def sample_email_B_def)
  have ec: "email_of (base64_utf8 sample_env) ''C'' (Some sample_payload_C) = sample_email_C"
    by (simp add: email_of_def sample_env_def sample_payload_C_def sample_base64_def
        find_value_def sample_email_C_def)
  have taskB: "\<And>v. \<exists>t. fst (extractTasksFromEmail sample_env
                 (email_of (base64_utf8 sample_env) ''B'' (Some sample_payload_B)) v) = Some t"
    by (simp add: eb sample_extract_B)
  have noneC: "\<And>v. fst (extractTasksFromEmail sample_env
                 (email_of (base64_utf8 sample_env) ''C'' (Some sample_payload_C)) v) = None"
    by (simp add: ec sample_extract_C)
  from run_example_counts_eligible [OF store inbox pa pb pc promoA eligB eligC taskB noneC]
  obtain res w' t where
    r: "taskRefreshWorkflow sample_env empty_world = (Inr res, w')"
       "executionLogs w' = executionLogs empty_world @
             [\<lparr>timestamp = Date_now sample_env (tick w'), emailsChecked = 2, tasksExtracted = 1,
               l_status = LogSuccess, l_error = None\<rparr>]"
       "taskStore w' = [(t_id t, t)]" "t_emailId t = ''B''"
    by blast
  from r(1) have "tick w' = 10"
    by (auto simp: sample_run)
  with r(2) have "executionLogs w' =
        [\<lparr>timestamp = 1736150400010, emailsChecked = 2, tasksExtracted = 1,
          l_status = LogSuccess, l_error = None\<rparr>]"
    by (simp add: empty_world_def sample_env_def)
  with r store promoA show ?thesis by blast
qed

text \<open>
  Claim C1 as stated fails: on the sample inbox (\<open>A\<close> promotional, \<open>B\<close> yields a task, \<open>C\<close>
  yields none) the log entry reports 2 messages checked, not 3.
\<close>

theorem emails_checked_counterexample:
  "messages_list sample_env 0 20 = Some [''A'', ''B'', ''C''] \<and>
   isPromotionalEmail (payload_headers (Some sample_payload_A))
      (payload_body (base64_utf8 sample_env) (Some sample_payload_A)) \<and>
   (\<exists>res w'.
      taskRefreshWorkflow sample_env empty_world = (Inr res, w') \<and>
      length (executionLogs w') = 1 \<and>
      emailsChecked (last (executionLogs w')) = 2 \<and>
      emailsChecked (last (executionLogs w')) \<noteq> 3 \<and>
      tasksExtracted (last (executionLogs w')) = 1 \<and>
      l_status (last (executionLogs w')) = LogSuccess)"
proof -
  have "isPromotionalEmail (payload_headers (Some sample_payload_A))
      (payload_body (base64_utf8 sample_env) (Some sample_payload_A))"
    by (simp add: sample_env_def isPromotionalEmail_def fromHeader_def subjectHeader_def
        find_value_def toLowerCase_def lower_char_def promotionalKeywords_def
        sample_payload_A_def sample_base64_def)
  moreover have "messages_list sample_env 0 20 = Some [''A'', ''B'', ''C'']"
    by (simp add: sample_env_def)
  ultimately show ?thesis
    by (simp add: sample_run)
qed




text \<open>
  Claim C3. When the fetch of the first stage throws, the run ends with that exception and
  neither inserts a task nor hands a message to the extractor; but it appends no log entry:
  the execution log is the same after the run as before it. Only the third step writes to
  the log, and the run never reaches it.
\<close>

theorem fetch_failure_leaves_no_log:
  assumes "getEmails env (Some 20) w = (Inl e, w1)"
  shows "taskRefreshWorkflow env w = (Inl e, w1) \<and>
         executionLogs w1 = executionLogs w \<and>
         taskStore w1 = taskStore w \<and>
         submitted w1 = submitted w"
  using assms getEmails_frame [OF assms]
  by (simp add: taskRefreshWorkflow_def workflow_def fetchEmailsStep_def emailTool_execute_def)

theorem fetch_failure_leaves_no_log_witness:
  "getEmails down_env (Some 20) empty_world = (Inl fetch_failed, empty_world\<lparr>tick := 1\<rparr>) \<and>
   taskRefreshWorkflow down_env empty_world = (Inl fetch_failed, empty_world\<lparr>tick := 1\<rparr>) \<and>
   executionLogs (snd (taskRefreshWorkflow down_env empty_world)) = [] \<and>
   taskStore (snd (taskRefreshWorkflow down_env empty_world)) = []"
proof -
  have g: "getEmails down_env (Some 20) empty_world = (Inl fetch_failed, empty_world\<lparr>tick := 1\<rparr>)"
    by (simp add: getEmails_def down_env_def await_def empty_world_def)
  from fetch_failure_leaves_no_log [OF g] g show ?thesis
    by (simp add: empty_world_def)
qed



end
